theory Spec2Isabelle
  imports Complex_Main "HOL-Library.Word"
begin

unbundle bit_operations_syntax

section \<open>JavaScript strings and buffers\<close>

text \<open>
  A JavaScript string is a sequence of UTF-16 code units; \<open>substring\<close> and \<open>replace\<close>
  count and compare code units. A \<open>Buffer\<close> is a sequence of bytes.
\<close>

type_synonym jsstring = "16 word list"
type_synonym byte = "8 word"
type_synonym buffer = "byte list"

text \<open>\<open>Buffer.from('game')\<close> and the other ASCII literals of the source: one code unit per
  character.\<close>

definition js :: "string \<Rightarrow> jsstring" where
  "js s = map (\<lambda>c. of_nat (of_char c)) s"

text \<open>\<open>gameId.replace(/-/g, '')\<close>: every code unit \<open>0x2D\<close> is removed.\<close>

definition replace_dashes :: "jsstring \<Rightarrow> jsstring" where
  "replace_dashes s = filter (\<lambda>c. c \<noteq> 0x2D) s"

text \<open>\<open>s.substring(0, n)\<close>: the first \<open>n\<close> code units.\<close>

definition substring0 :: "nat \<Rightarrow> jsstring \<Rightarrow> jsstring" where
  "substring0 n s = take n s"

text \<open>
  \<open>Buffer.from(s, 'utf8')\<close>: a code unit below \<open>0x80\<close> is one byte, below \<open>0x800\<close> two
  bytes; a high surrogate followed by a low surrogate is one code point of four bytes; a
  lone surrogate is replaced by U+FFFD (\<open>EF BF BD\<close>); every other code unit is three bytes.
\<close>

definition is_high_surrogate :: "16 word \<Rightarrow> bool" where
  "is_high_surrogate c = (0xD800 \<le> c \<and> c < 0xDC00)"

definition is_low_surrogate :: "16 word \<Rightarrow> bool" where
  "is_low_surrogate c = (0xDC00 \<le> c \<and> c < 0xE000)"

definition utf8_1 :: "16 word \<Rightarrow> buffer" where
  "utf8_1 c = [ucast c]"

definition utf8_2 :: "16 word \<Rightarrow> buffer" where
  "utf8_2 c = [0xC0 OR ucast (drop_bit 6 c), 0x80 OR ucast (c AND 0x3F)]"

definition utf8_3 :: "16 word \<Rightarrow> buffer" where
  "utf8_3 c = [0xE0 OR ucast (drop_bit 12 c),
               0x80 OR ucast (drop_bit 6 c AND 0x3F),
               0x80 OR ucast (c AND 0x3F)]"

definition utf8_4 :: "16 word \<Rightarrow> 16 word \<Rightarrow> buffer" where
  "utf8_4 hi lo =
     (let cp = 0x10000 + push_bit 10 (ucast (hi AND 0x3FF) :: 32 word)
                       + (ucast (lo AND 0x3FF) :: 32 word)
      in [0xF0 OR ucast (drop_bit 18 cp),
          0x80 OR ucast (drop_bit 12 cp AND 0x3F),
          0x80 OR ucast (drop_bit 6 cp AND 0x3F),
          0x80 OR ucast (cp AND 0x3F)])"

definition replacement_char :: buffer where
  "replacement_char = [0xEF, 0xBF, 0xBD]"

fun utf8 :: "jsstring \<Rightarrow> buffer" where
  "utf8 [] = []"
| "utf8 [c] =
     (if c < 0x80 then utf8_1 c
      else if c < 0x800 then utf8_2 c
      else if is_high_surrogate c \<or> is_low_surrogate c then replacement_char
      else utf8_3 c)"
| "utf8 (c # d # ds) =
     (if c < 0x80 then utf8_1 c @ utf8 (d # ds)
      else if c < 0x800 then utf8_2 c @ utf8 (d # ds)
      else if is_high_surrogate c then
        (if is_low_surrogate d then utf8_4 c d @ utf8 ds
         else replacement_char @ utf8 (d # ds))
      else if is_low_surrogate c then replacement_char @ utf8 (d # ds)
      else utf8_3 c @ utf8 (d # ds))"

section \<open>Errors and the ledger client library\<close>

text \<open>Every \<open>throw\<close> of the source and of the libraries it calls is a value.\<close>

datatype error = Error string | RangeError | TypeError

type_synonym pubkey = buffer

text \<open>
  The ledger client library (\<open>@solana/web3.js\<close>) is not part of the repository. Its
  functions are parameters: \<open>new PublicKey(base58)\<close>, \<open>new PublicKey(bytes)\<close> and
  \<open>PublicKey.findProgramAddressSync(seeds, programId)[0]\<close>, each of which may throw.
\<close>

record web3 =
  newPublicKey :: "string \<Rightarrow> error + pubkey"
  newPublicKeyBytes :: "buffer \<Rightarrow> error + pubkey"
  findProgramAddressSync :: "buffer list \<Rightarrow> pubkey \<Rightarrow> error + pubkey"

section \<open>Derived account addresses\<close>

text \<open>The seed both implementations pass to the derivation:
  \<open>Buffer.from(gameId.replace(/-/g, '').substring(0, 32), 'utf8')\<close>.\<close>

definition truncatedGameId :: "jsstring \<Rightarrow> jsstring" where
  "truncatedGameId gameId = substring0 32 (replace_dashes gameId)"

definition game_seed :: "jsstring \<Rightarrow> buffer" where
  "game_seed gameId = utf8 (truncatedGameId gameId)"

text \<open>\<open>const PROGRAM_ID = new PublicKey('GstX...')\<close> in \<open>use-anchor-program.ts\<close>.\<close>

definition PROGRAM_ID_hook :: "web3 \<Rightarrow> error + pubkey" where
  "PROGRAM_ID_hook lib = newPublicKey lib ''GstXQkBpu26KABj6YZ3pYKJhQphoQ72YL1zL38NC6D9U''"

text \<open>\<open>const PROGRAM_ID = new PublicKey('GstX...')\<close> in the Auto-Finalization Service.\<close>

definition PROGRAM_ID_service :: "web3 \<Rightarrow> error + pubkey" where
  "PROGRAM_ID_service lib = newPublicKey lib ''GstXQkBpu26KABj6YZ3pYKJhQphoQ72YL1zL38NC6D9U''"

text \<open>\<open>findGamePDA\<close> of \<open>use-anchor-program.ts\<close>.\<close>

definition findGamePDA_hook :: "web3 \<Rightarrow> jsstring \<Rightarrow> error + pubkey" where
  "findGamePDA_hook lib gameId =
     (let truncated = substring0 32 (replace_dashes gameId) in
      case PROGRAM_ID_hook lib of
        Inl e \<Rightarrow> Inl e
      | Inr pid \<Rightarrow> findProgramAddressSync lib [utf8 (js ''game''), utf8 truncated] pid)"

text \<open>\<open>findGamePDA\<close> of the Auto-Finalization Service.\<close>

definition findGamePDA_service :: "web3 \<Rightarrow> jsstring \<Rightarrow> error + pubkey" where
  "findGamePDA_service lib gameId =
     (let truncated = substring0 32 (replace_dashes gameId) in
      case PROGRAM_ID_service lib of
        Inl e \<Rightarrow> Inl e
      | Inr pid \<Rightarrow> findProgramAddressSync lib [utf8 (js ''game''), utf8 truncated] pid)"

text \<open>\<open>findUserProfilePDA\<close>: seeds \<open>'user_profile'\<close> and the key's 32 bytes.\<close>

definition findUserProfilePDA_hook :: "web3 \<Rightarrow> pubkey \<Rightarrow> error + pubkey" where
  "findUserProfilePDA_hook lib k =
     (case PROGRAM_ID_hook lib of
        Inl e \<Rightarrow> Inl e
      | Inr pid \<Rightarrow> findProgramAddressSync lib [utf8 (js ''user_profile''), k] pid)"

definition findUserProfilePDA_service :: "web3 \<Rightarrow> pubkey \<Rightarrow> error + pubkey" where
  "findUserProfilePDA_service lib k =
     (case PROGRAM_ID_service lib of
        Inl e \<Rightarrow> Inl e
      | Inr pid \<Rightarrow> findProgramAddressSync lib [utf8 (js ''user_profile''), k] pid)"

section \<open>Amounts\<close>

text \<open>
  Stake amounts are JavaScript numbers. The code modelled here stores them, passes them on
  and tests them for zero; it does no arithmetic on them, and they are carried as rationals.
\<close>

type_synonym amount = rat

section \<open>Client session state (\<open>use-game.ts\<close>)\<close>

datatype gameType = Private | Public

datatype currency = Points | Sol

datatype gameStatus = Lobby | Waiting | Playing | GameOver | RoundResult

text \<open>
  \<open>interface Player\<close> and \<open>interface GameState\<close>. A field of type \<open>string | null\<close> or an
  optional field is an option; \<open>None\<close> stands for both \<open>null\<close> and \<open>undefined\<close>. Identifiers,
  wallet addresses, moves and messages are compared for equality and tested for emptiness
  only, and are plain strings.
\<close>

record Player =
  ident :: "string option"
  wallet :: "string option"
  wins :: int
  currentMove :: "string option"
  ready :: bool

record GameState =
  gameId :: "string option"
  gameType :: gameType
  currency :: currency
  player1 :: Player
  player2 :: "Player option"
  currentRound :: int
  gameStatus :: gameStatus
  winner :: "string option"
  stakeAmount :: amount
  totalPot :: amount
  roundResult :: "string option"
  countdown :: int
  inviteLink :: "string option"

text \<open>The state \<open>useState\<close> starts from, which \<open>handlePlayerLeft\<close> also resets to.\<close>

definition lobby_player :: Player where
  "lobby_player = \<lparr>ident = Some ''you'', wallet = None, wins = 0, currentMove = None, ready = False\<rparr>"

definition lobby_state :: GameState where
  "lobby_state =
     \<lparr>gameId = None, gameType = Private, currency = Points, player1 = lobby_player,
      player2 = None, currentRound = 1, gameStatus = Lobby, winner = None, stakeAmount = 0,
      totalPot = 0, roundResult = None, countdown = 0, inviteLink = None\<rparr>"

subsection \<open>Event payloads\<close>

text \<open>
  The payloads are of type \<open>any\<close> in the source. A field the handlers guard with \<open>?.\<close>,
  \<open>||\<close> or \<open>??\<close> is an option; a field they read unguarded is required. \<open>a || b\<close> takes \<open>b\<close>
  when \<open>a\<close> is absent or falsy: the empty string, the number 0.
\<close>

definition truthy_str :: "string \<Rightarrow> bool" where
  "truthy_str s = (s \<noteq> [])"

definition truthy_num :: "'a::zero \<Rightarrow> bool" where
  "truthy_num n = (n \<noteq> 0)"

definition js_or :: "('a \<Rightarrow> bool) \<Rightarrow> 'a option \<Rightarrow> 'a option \<Rightarrow> 'a option" where
  "js_or truthy a b = (case a of Some x \<Rightarrow> if truthy x then a else b | None \<Rightarrow> b)"

text \<open>\<open>a || d\<close> with a default \<open>d\<close> that is always there.\<close>

definition js_or_default :: "('a \<Rightarrow> bool) \<Rightarrow> 'a option \<Rightarrow> 'a \<Rightarrow> 'a" where
  "js_or_default truthy a d = (case a of Some x \<Rightarrow> if truthy x then x else d | None \<Rightarrow> d)"

record PlayerData =
  pd_id :: string
  pd_wallet :: "string option"
  pd_wins :: "int option"
  pd_currentMove :: "string option"
  pd_ready :: "bool option"

text \<open>The server's game object as \<open>player_joined\<close>, \<open>game_started\<close> and
  \<open>game_started_pre_tx\<close> read it: every access is guarded.\<close>

record GameStateData =
  gd_gameId :: "string option"
  gd_gameType :: "gameType option"
  gd_currency :: "currency option"
  gd_player1 :: "PlayerData option"
  gd_player2 :: "PlayerData option"
  gd_currentRound :: "int option"
  gd_gameStatus :: "string option"
  gd_stakeAmount :: "amount option"

text \<open>The server's game object as \<open>game_joined\<close> reads it: \<open>gameType\<close>, \<open>stakeAmount\<close> and
  \<open>totalPot\<close> are copied into the state unguarded.\<close>

record JoinedGameState =
  jg_gameId :: "string option"
  jg_gameType :: gameType
  jg_currency :: "currency option"
  jg_player1 :: "PlayerData option"
  jg_player2 :: "PlayerData option"
  jg_currentRound :: "int option"
  jg_gameStatus :: "string option"
  jg_winner :: "string option"
  jg_stakeAmount :: amount
  jg_totalPot :: amount

text \<open>An event's \<open>data\<close>: its own fields, the nested \<open>data.gameState\<close> when there is one, and
  \<open>data.playerType\<close>. \<open>data.gameState || data\<close> is the nested object, or \<open>data\<close> itself.\<close>

record 'g payload =
  own_fields :: 'g
  gameState :: "'g option"
  playerType :: "string option"

definition gameStateData :: "'g payload \<Rightarrow> 'g" where
  "gameStateData d = (case gameState d of Some g \<Rightarrow> g | None \<Rightarrow> own_fields d)"

text \<open>\<open>publicKey?.toString().slice(0, 8)\<close>; \<open>publicKey\<close> is the connected wallet's address in
  base 58, or \<open>None\<close> when no wallet is connected.\<close>

definition myPlayerId :: "string option \<Rightarrow> string option" where
  "myPlayerId publicKey = map_option (take 8) publicKey"

subsection \<open>Joining and starting\<close>



definition rejoined_player1 :: "PlayerData option \<Rightarrow> Player" where
  "rejoined_player1 p =
     \<lparr>ident = js_or truthy_str (map_option pd_id p) None,
      wallet = Option.bind p pd_wallet,
      wins = js_or_default truthy_num (Option.bind p pd_wins) 0,
      currentMove = Option.bind p pd_currentMove,
      ready = (case Option.bind p pd_ready of Some r \<Rightarrow> r | None \<Rightarrow> False)\<rparr>"

definition rejoined_player2 :: "PlayerData \<Rightarrow> Player" where
  "rejoined_player2 p =
     \<lparr>ident = Some (pd_id p),
      wallet = pd_wallet p,
      wins = js_or_default truthy_num (pd_wins p) 0,
      currentMove = pd_currentMove p,
      ready = (case pd_ready p of Some r \<Rightarrow> r | None \<Rightarrow> False)\<rparr>"

definition handleGameJoined :: "string option \<Rightarrow> JoinedGameState payload \<Rightarrow> GameState" where
  "handleGameJoined publicKey d =
     (let g = gameStateData d;
          isPlayer2 = (map_option pd_id (jg_player2 g) = myPlayerId publicKey)
      in \<lparr>gameId = js_or truthy_str (jg_gameId (own_fields d)) (jg_gameId g),
          gameType = jg_gameType g,
          currency = js_or_default (\<lambda>c. True) (jg_currency g) Points,
          player1 = rejoined_player1 (jg_player1 g),
          player2 = map_option rejoined_player2 (jg_player2 g),
          currentRound = js_or_default truthy_num (jg_currentRound g) 1,
          gameStatus =
            (if isPlayer2 \<and> jg_currency g = Some Sol \<and> jg_gameType g = Private then Waiting
             else if jg_gameStatus g = Some ''playing'' then Playing else Waiting),
          winner = jg_winner g,
          stakeAmount = jg_stakeAmount g,
          totalPot = jg_totalPot g,
          roundResult = None,
          countdown = 0,
          inviteLink = None\<rparr>)"





subsection \<open>Moves and rounds\<close>

record MoveSubmittedData =
  ms_playerId :: string
  ms_move :: "string option"

definition handleMoveSubmitted :: "MoveSubmittedData \<Rightarrow> GameState \<Rightarrow> GameState" where
  "handleMoveSubmitted d prev =
     (let moveMakerPlayerId = ms_playerId d;
          isPlayer1Move = (ident (player1 prev) = Some moveMakerPlayerId)
      in prev\<lparr>player1 :=
                 (if isPlayer1Move then (player1 prev)\<lparr>currentMove := ms_move d, ready := True\<rparr>
                  else player1 prev),
               player2 :=
                 (case player2 prev of
                    Some p2 \<Rightarrow>
                      if ident p2 = Some moveMakerPlayerId
                      then Some (p2\<lparr>currentMove := ms_move d, ready := True\<rparr>)
                      else Some p2
                  | None \<Rightarrow> None)\<rparr>)"

text \<open>\<open>round_completed\<close>: \<open>data.roundResult\<close> with its scores and \<open>data.gameState\<close> are read
  unguarded inside the state update.\<close>

record RoundCompletedData =
  rc_roundWinner :: "string option"
  rc_scores_player1 :: int
  rc_scores_player2 :: int
  rc_player1 :: "PlayerData option"
  rc_player2 :: "PlayerData option"
  rc_currentRound :: "int option"

definition roundResultMessage :: "string option \<Rightarrow> RoundCompletedData \<Rightarrow> string" where
  "roundResultMessage publicKey d =
     (if rc_roundWinner d = Some ''player1'' then
        (if Option.bind (rc_player1 d) pd_wallet = publicKey
         then ''You won this round!'' else ''You lost this round!'')
      else if rc_roundWinner d = Some ''player2'' then
        (if Option.bind (rc_player2 d) pd_wallet = publicKey
         then ''You won this round!'' else ''You lost this round!'')
      else ''It's a draw!'')"

text \<open>\<open>a ?? b\<close>: \<open>b\<close> when \<open>a\<close> is \<open>null\<close> or \<open>undefined\<close>.\<close>

definition nullish :: "'a option \<Rightarrow> 'a option \<Rightarrow> 'a option" where
  "nullish a b = (case a of Some x \<Rightarrow> Some x | None \<Rightarrow> b)"

definition handleRoundCompleted :: "string option \<Rightarrow> RoundCompletedData \<Rightarrow> GameState \<Rightarrow> GameState" where
  "handleRoundCompleted publicKey d prev =
     prev\<lparr>player1 :=
             (player1 prev)\<lparr>wins := rc_scores_player1 d,
                            currentMove := nullish (Option.bind (rc_player1 d) pd_currentMove)
                                             (currentMove (player1 prev)),
                            ready := False\<rparr>,
           player2 :=
             map_option
               (\<lambda>p2. p2\<lparr>wins := rc_scores_player2 d,
                         currentMove := nullish (Option.bind (rc_player2 d) pd_currentMove)
                                          (currentMove p2),
                         ready := False\<rparr>)
               (player2 prev),
           currentRound := js_or_default truthy_num (rc_currentRound d) (currentRound prev),
           roundResult := Some (roundResultMessage publicKey d),
           gameStatus := RoundResult\<rparr>"

text \<open>\<open>handleNextRound\<close>: the state update made when the three second delay ends;
  \<open>data_round\<close> is \<open>data.round\<close>.\<close>

definition handleNextRound :: "int \<Rightarrow> GameState \<Rightarrow> GameState" where
  "handleNextRound data_round prev =
     prev\<lparr>currentRound := data_round,
           roundResult := None,
           gameStatus := Playing,
           player1 := (player1 prev)\<lparr>currentMove := None, ready := False\<rparr>,
           player2 := map_option (\<lambda>p2. p2\<lparr>currentMove := None, ready := False\<rparr>) (player2 prev)\<rparr>"

text \<open>The ready flag as the data model describes it: a player with a move is ready.\<close>

definition ready_derived :: "Player \<Rightarrow> bool" where
  "ready_derived p = (currentMove p \<noteq> None \<longrightarrow> ready p)"

definition ready_invariant :: "GameState \<Rightarrow> bool" where
  "ready_invariant s =
     (ready_derived (player1 s) \<and> (case player2 s of Some p2 \<Rightarrow> ready_derived p2 | None \<Rightarrow> True))"

subsection \<open>Forfeits\<close>

text \<open>What the handlers pass to \<open>options.onGameFinished\<close>.\<close>

record GameFinished =
  gf_gameId :: "string option"
  gf_winner_playerId :: "string option"
  gf_winner_reason :: string
  gf_gameState :: "GameStateData option"
  gf_quitReason :: string

text \<open>
  A handler's effects: the new state, the notification passed to \<open>onGameFinished\<close> if any,
  and the argument of \<open>setIsInGame\<close> if it is called. The status read through
  \<open>gameStateRef\<close> is taken to be that of the current state.
\<close>

type_synonym forfeit_effects = "GameState \<times> GameFinished option \<times> bool option"

definition handlePlayerLeft :: "string option \<Rightarrow> string option \<Rightarrow> GameState \<Rightarrow> forfeit_effects" where
  "handlePlayerLeft publicKey data_gameId prev =
     (if gameStatus prev = Playing then
        (prev\<lparr>gameStatus := GameOver,
               winner := js_or truthy_str (myPlayerId publicKey) None,
               roundResult := Some ''You won! Your opponent left the game.''\<rparr>,
         Some \<lparr>gf_gameId = data_gameId,
               gf_winner_playerId = myPlayerId publicKey,
               gf_winner_reason = ''opponent_quit'',
               gf_gameState = None,
               gf_quitReason = ''opponent_left''\<rparr>,
         None)
      else (lobby_state, None, Some False))"

record PlayerDisconnectedData =
  dc_gameId :: "string option"
  dc_disconnectedPlayerId :: "string option"
  dc_gameState :: "GameStateData option"

definition handlePlayerDisconnected ::
  "string option \<Rightarrow> PlayerDisconnectedData \<Rightarrow> GameState \<Rightarrow> forfeit_effects" where
  "handlePlayerDisconnected publicKey d prev =
     (if dc_disconnectedPlayerId d \<noteq> myPlayerId publicKey \<and> gameStatus prev = Playing then
        (prev\<lparr>gameStatus := GameOver,
               winner := js_or truthy_str (myPlayerId publicKey) None,
               roundResult := Some ''You won! Your opponent disconnected.''\<rparr>,
         Some \<lparr>gf_gameId = dc_gameId d,
               gf_winner_playerId = myPlayerId publicKey,
               gf_winner_reason = ''opponent_disconnect'',
               gf_gameState = dc_gameState d,
               gf_quitReason = ''opponent_disconnected''\<rparr>,
         None)
      else (prev, None, None))"

subsection \<open>Session events in sequence\<close>






subsection \<open>A sample session\<close>

text \<open>Two wallets, the identifiers the client derives from them, and the payloads of a
  points match and of a private ledger-stake match between them.\<close>

definition wallet_A :: string where
  "wallet_A = ''7xKXtg2CW87d97TXJSDpbD5jBkheTqA83TZRuJosgAsU''"

definition wallet_B :: string where
  "wallet_B = ''4Nd1mBQtrMJVYVfKf2PJy9NZUZdTAsp7D4xWLs4gDB4T''"

definition data_A :: PlayerData where
  "data_A = \<lparr>pd_id = ''7xKXtg2C'', pd_wallet = Some wallet_A, pd_wins = Some 1,
             pd_currentMove = None, pd_ready = None\<rparr>"

definition data_B :: PlayerData where
  "data_B = \<lparr>pd_id = ''4Nd1mBQt'', pd_wallet = Some wallet_B, pd_wins = Some 0,
             pd_currentMove = None, pd_ready = None\<rparr>"

definition points_match :: "JoinedGameState payload" where
  "points_match =
     \<lparr>own_fields =
        \<lparr>jg_gameId = Some ''482915'', jg_gameType = Public, jg_currency = Some Points,
         jg_player1 = Some data_A, jg_player2 = Some data_B, jg_currentRound = Some 2,
         jg_gameStatus = Some ''playing'', jg_winner = None, jg_stakeAmount = 100,
         jg_totalPot = 200\<rparr>,
      gameState = None, playerType = None\<rparr>"



text \<open>Player A's client in the points match, in \<open>playing\<close>.\<close>

definition playing_A :: GameState where
  "playing_A = handleGameJoined (Some wallet_A) points_match"


definition rock_by_A :: MoveSubmittedData where
  "rock_by_A = \<lparr>ms_playerId = ''7xKXtg2C'', ms_move = Some ''rock''\<rparr>"

definition round_won_by_A :: RoundCompletedData where
  "round_won_by_A =
     \<lparr>rc_roundWinner = Some ''player1'', rc_scores_player1 = 2, rc_scores_player2 = 0,
      rc_player1 = Some data_A, rc_player2 = Some data_B, rc_currentRound = Some 2\<rparr>"

definition B_disconnected :: PlayerDisconnectedData where
  "B_disconnected =
     \<lparr>dc_gameId = Some ''482915'', dc_disconnectedPlayerId = Some ''4Nd1mBQt'',
      dc_gameState = None\<rparr>"

section \<open>Ledger transactions\<close>

text \<open>
  The instructions the source submits to the on-chain program, with the arguments and
  accounts it passes; the system program account, the same constant in each, is left out
  of the Anchor calls. The raw finalize instruction of the service carries its program id,
  its account keys (key, signer, writable) and its data.
\<close>

datatype instruction =
    SetWinner jsstring pubkey pubkey pubkey
      \<comment> \<open>\<open>setWinner(gameId, winner)\<close>, accounts \<open>game\<close>, \<open>user\<close>\<close>
  | RawInstruction "error + pubkey" "(pubkey \<times> bool \<times> bool) list" buffer
  | SubmitMove jsstring buffer pubkey pubkey
      \<comment> \<open>\<open>submitMove(gameId, commitment)\<close>, accounts \<open>game\<close>, \<open>user\<close>\<close>
  | RevealMoves jsstring string nat pubkey pubkey
      \<comment> \<open>\<open>revealMoves(gameId, move, nonce)\<close>, accounts \<open>game\<close>, \<open>user\<close>\<close>
  | AbandonGame jsstring pubkey pubkey
      \<comment> \<open>\<open>abandonGame(gameId)\<close>, accounts \<open>game\<close>, \<open>user\<close>\<close>
  | FinalizeAbandonedGame jsstring pubkey pubkey pubkey pubkey pubkey
      \<comment> \<open>accounts \<open>game\<close>, \<open>player1Profile\<close>, \<open>player2Profile\<close>, \<open>player1\<close>, \<open>player2\<close>\<close>
  | FinalizeGame jsstring pubkey pubkey pubkey pubkey pubkey
      \<comment> \<open>accounts \<open>game\<close>, \<open>player1Profile\<close>, \<open>player2Profile\<close>, \<open>player1\<close>, \<open>player2\<close>\<close>

text \<open>A call to the ledger: an account fetched, or a transaction handed over for
  submission, whether it then succeeds or not.\<close>

datatype call = Fetch pubkey | Send instruction

text \<open>
  The ledger and the on-chain program are outside the repository. The RPC client is a
  parameter over a ledger state \<open>'l\<close>: fetching an account returns its data, nothing, or
  throws; submitting a transaction returns or throws, and leaves a ledger state either way.
  \<open>sendAndConfirm\<close> is the service's \<open>.rpc()\<close> and \<open>provider.sendAndConfirm\<close>;
  \<open>sendTransaction\<close> and \<open>confirmTransaction\<close> are the client wallet's, the latter returning
  whether \<open>confirmation.value.err\<close> is set.
\<close>

record 'l rpc =
  getAccountInfo :: "'l \<Rightarrow> pubkey \<Rightarrow> error + buffer option"
  sendAndConfirm :: "'l \<Rightarrow> instruction \<Rightarrow> (error + unit) \<times> 'l"
  sendTransaction :: "'l \<Rightarrow> instruction \<Rightarrow> (error + nat) \<times> 'l"
  confirmTransaction :: "'l \<Rightarrow> nat \<Rightarrow> error + bool"

subsection \<open>Asynchronous code that may throw\<close>

text \<open>A computation over the ledger state and the log of calls made so far; it returns a
  value or throws, and what it did to the state before throwing stays done.\<close>

type_synonym ('a, 'l) io = "'l \<times> call list \<Rightarrow> (error + 'a) \<times> 'l \<times> call list"

definition ret :: "'a \<Rightarrow> ('a, 'l) io" where
  "ret x = (\<lambda>s. (Inr x, s))"

definition throw :: "error \<Rightarrow> ('a, 'l) io" where
  "throw e = (\<lambda>s. (Inl e, s))"

definition lift :: "error + 'a \<Rightarrow> ('a, 'l) io" where
  "lift r = (\<lambda>s. (r, s))"

definition bnd :: "('a, 'l) io \<Rightarrow> ('a \<Rightarrow> ('b, 'l) io) \<Rightarrow> ('b, 'l) io" where
  "bnd m f = (\<lambda>s. case m s of (Inl e, s') \<Rightarrow> (Inl e, s') | (Inr x, s') \<Rightarrow> f x s')"

definition try_catch :: "('a, 'l) io \<Rightarrow> (error \<Rightarrow> ('a, 'l) io) \<Rightarrow> ('a, 'l) io" where
  "try_catch m h = (\<lambda>s. case m s of (Inl e, s') \<Rightarrow> h e s' | (Inr x, s') \<Rightarrow> (Inr x, s'))"

definition fetch :: "'l rpc \<Rightarrow> pubkey \<Rightarrow> (buffer option, 'l) io" where
  "fetch r a = (\<lambda>(l, calls). (getAccountInfo r l a, l, calls @ [Fetch a]))"

definition send_rpc :: "'l rpc \<Rightarrow> instruction \<Rightarrow> (unit, 'l) io" where
  "send_rpc r i = (\<lambda>(l, calls). case sendAndConfirm r l i of (res, l') \<Rightarrow> (res, l', calls @ [Send i]))"

definition send_wallet :: "'l rpc \<Rightarrow> instruction \<Rightarrow> (nat, 'l) io" where
  "send_wallet r i = (\<lambda>(l, calls). case sendTransaction r l i of (res, l') \<Rightarrow> (res, l', calls @ [Send i]))"

definition confirm :: "'l rpc \<Rightarrow> nat \<Rightarrow> (bool, 'l) io" where
  "confirm r sig = (\<lambda>(l, calls). (confirmTransaction r l sig, l, calls))"

subsection \<open>Buffers\<close>

text \<open>\<open>buf.readUInt32LE(offset)\<close> throws a range error when four bytes are not there;
  \<open>buf.slice(a, b)\<close> is cut to the buffer; \<open>buf[i]\<close> is \<open>undefined\<close> out of range;
  \<open>buf.writeUInt32LE(n, 0)\<close> on a fresh four byte buffer throws when \<open>n\<close> does not fit.\<close>

definition readUInt32LE :: "buffer \<Rightarrow> nat \<Rightarrow> error + nat" where
  "readUInt32LE buf offset =
     (if offset + 4 \<le> length buf
      then Inr (unat (buf ! offset) + 256 * unat (buf ! (offset + 1))
                + 65536 * unat (buf ! (offset + 2)) + 16777216 * unat (buf ! (offset + 3)))
      else Inl RangeError)"

definition slice :: "buffer \<Rightarrow> nat \<Rightarrow> nat \<Rightarrow> buffer" where
  "slice buf a b = take (b - a) (drop a buf)"

definition byte_at :: "buffer \<Rightarrow> nat \<Rightarrow> byte option" where
  "byte_at buf i = (if i < length buf then Some (buf ! i) else None)"

definition writeUInt32LE :: "nat \<Rightarrow> error + buffer" where
  "writeUInt32LE n =
     (if n < 2 ^ 32
      then Inr [of_nat n, of_nat (n div 256), of_nat (n div 65536), of_nat (n div 16777216)]
      else Inl RangeError)"

section \<open>Auto-Finalization Service\<close>

text \<open>The player keys read from the game account: discriminator (8 bytes), the game id
  with its length, player 1 (32 bytes), the option tag of player 2 and its 32 bytes.\<close>

definition parse_players :: "web3 \<Rightarrow> buffer \<Rightarrow> error + pubkey \<times> pubkey" where
  "parse_players lib gameData =
     (case readUInt32LE gameData 8 of
        Inl e \<Rightarrow> Inl e
      | Inr gameIdLength \<Rightarrow>
          (let offset = 8 + (4 + gameIdLength) in
            (case newPublicKeyBytes lib (slice gameData offset (offset + 32)) of
               Inl e \<Rightarrow> Inl e
             | Inr player1Key \<Rightarrow>
                 (let offset2 = offset + 32 in
                   (if byte_at gameData offset2 = Some 1 then
                      (case newPublicKeyBytes lib (slice gameData (offset2 + 1) (offset2 + 1 + 32)) of
                         Inl e \<Rightarrow> Inl e
                       | Inr player2Key \<Rightarrow> Inr (player1Key, player2Key))
                    else Inl (Error ''Game has no player2 - cannot finalize''))))))"

text \<open>
  The winner's referrer, read from the winner's profile account at offset 44; the whole
  lookup is inside a \<open>try\<close> whose \<open>catch\<close> keeps what has been assigned so far: the platform
  wallet and player 1's profile to begin with.
\<close>

definition referrer_lookup ::
  "web3 \<Rightarrow> 'l rpc \<Rightarrow> pubkey \<Rightarrow> pubkey \<Rightarrow> pubkey \<Rightarrow> (pubkey \<times> pubkey, 'l) io" where
  "referrer_lookup lib r PLATFORM_WALLET player1ProfilePDA winnerProfilePDA =
     try_catch
       (bnd (fetch r winnerProfilePDA) (\<lambda>winnerProfileAccount.
          case winnerProfileAccount of
            None \<Rightarrow> ret (PLATFORM_WALLET, player1ProfilePDA)
          | Some profileData \<Rightarrow>
              if byte_at profileData 44 = Some 1 then
                (case newPublicKeyBytes lib (slice profileData 45 (45 + 32)) of
                   Inl e \<Rightarrow> ret (PLATFORM_WALLET, player1ProfilePDA)
                 | Inr referrerWallet \<Rightarrow>
                     (case findUserProfilePDA_service lib referrerWallet of
                        Inl e \<Rightarrow> ret (referrerWallet, player1ProfilePDA)
                      | Inr referrerProfilePDA \<Rightarrow> ret (referrerWallet, referrerProfilePDA)))
              else ret (PLATFORM_WALLET, player1ProfilePDA)))
       (\<lambda>e. ret (PLATFORM_WALLET, player1ProfilePDA))"

definition FINALIZE_GAME_DISCRIMINATOR :: buffer where
  "FINALIZE_GAME_DISCRIMINATOR = [203, 227, 3, 167, 186, 102, 76, 10]"

definition SystemProgram_programId :: pubkey where
  "SystemProgram_programId = replicate 32 0"

definition finalizeInstruction ::
  "web3 \<Rightarrow> pubkey \<Rightarrow> pubkey \<Rightarrow> pubkey \<Rightarrow> pubkey \<Rightarrow> pubkey \<Rightarrow> pubkey \<Rightarrow> pubkey \<Rightarrow> pubkey
     \<Rightarrow> buffer \<Rightarrow> instruction" where
  "finalizeInstruction lib gamePDA player1ProfilePDA player2ProfilePDA player1Key player2Key
     PLATFORM_WALLET referrerWallet referrerProfilePDA instructionData =
     RawInstruction (PROGRAM_ID_service lib)
       [(gamePDA, False, True),
        (player1ProfilePDA, False, True),
        (player2ProfilePDA, False, True),
        (player1Key, False, True),
        (player2Key, False, True),
        (PLATFORM_WALLET, False, True),
        (referrerWallet, False, True),
        (referrerProfilePDA, False, True),
        (SystemProgram_programId, False, False)]
       instructionData"

text \<open>
  The body of the \<open>try\<close> of \<open>autoFinalizeSolGame\<close>. \<open>serviceWallet\<close> is the module's variable,
  \<open>None\<close> before \<open>initializeService\<close>; \<open>PLATFORM_WALLET\<close> is imported from the configuration.
  The read of the game account after \<open>set_winner\<close> is inside the \<open>try\<close> whose \<open>catch\<close>
  rethrows. The amounts computed after the finalize transaction are only logged and are
  not part of the model; \<open>stake\<close> is not used otherwise.
\<close>

definition autoFinalizeSolGame_try ::
  "web3 \<Rightarrow> 'l rpc \<Rightarrow> pubkey option \<Rightarrow> pubkey \<Rightarrow> jsstring \<Rightarrow> string \<Rightarrow> string \<Rightarrow> amount
     \<Rightarrow> (bool, 'l) io" where
  "autoFinalizeSolGame_try lib r serviceWallet PLATFORM_WALLET gid winnerPublicKey loserPublicKey stake =
     (case serviceWallet of
        None \<Rightarrow> throw (Error ''Service wallet not initialized'')
      | Some serviceKey \<Rightarrow>
     bnd (lift (findGamePDA_service lib gid)) (\<lambda>gamePDA.
     bnd (fetch r gamePDA) (\<lambda>gameAccount.
     case gameAccount of
       None \<Rightarrow> throw (Error ''Game account not found on-chain. SOL games must be created through smart contract with escrow.'')
     | Some gameData \<Rightarrow>
     bnd (lift (parse_players lib gameData)) (\<lambda>(player1Key, player2Key).
     bnd (lift (findUserProfilePDA_service lib player1Key)) (\<lambda>player1ProfilePDA.
     bnd (lift (findUserProfilePDA_service lib player2Key)) (\<lambda>player2ProfilePDA.
     bnd (lift (newPublicKey lib winnerPublicKey)) (\<lambda>actualWinnerPubkey.
     bnd (send_rpc r (SetWinner gid actualWinnerPubkey gamePDA serviceKey)) (\<lambda>_.
     bnd (fetch r gamePDA) (\<lambda>gameAccountAfter.
     bnd (lift (writeUInt32LE (length (utf8 gid)))) (\<lambda>gameIdLengthBuffer.
     bnd (ret (FINALIZE_GAME_DISCRIMINATOR @ gameIdLengthBuffer @ utf8 gid)) (\<lambda>instructionData.
     bnd (lift (newPublicKey lib winnerPublicKey)) (\<lambda>winnerKey.
     bnd (lift (findUserProfilePDA_service lib winnerKey)) (\<lambda>winnerProfilePDA.
     bnd (referrer_lookup lib r PLATFORM_WALLET player1ProfilePDA winnerProfilePDA)
       (\<lambda>(referrerWallet, referrerProfilePDA).
     bnd (send_rpc r (finalizeInstruction lib gamePDA player1ProfilePDA player2ProfilePDA
                        player1Key player2Key PLATFORM_WALLET referrerWallet referrerProfilePDA
                        instructionData)) (\<lambda>_.
     ret True)))))))))))))))"

text \<open>\<open>autoFinalizeSolGame\<close>: \<open>true\<close> when the body returns, \<open>false\<close> from the \<open>catch\<close>, whose
  recovery fallback only logs.\<close>

definition autoFinalizeSolGame ::
  "web3 \<Rightarrow> 'l rpc \<Rightarrow> pubkey option \<Rightarrow> pubkey \<Rightarrow> jsstring \<Rightarrow> string \<Rightarrow> string \<Rightarrow> amount
     \<Rightarrow> 'l \<times> call list \<Rightarrow> bool \<times> 'l \<times> call list" where
  "autoFinalizeSolGame lib r serviceWallet PLATFORM_WALLET gid winnerPublicKey loserPublicKey stake s =
     (case autoFinalizeSolGame_try lib r serviceWallet PLATFORM_WALLET gid winnerPublicKey
             loserPublicKey stake s of
        (Inr b, s') \<Rightarrow> (b, s')
      | (Inl e, s') \<Rightarrow> (False, s'))"

text \<open>Observations on the log of ledger calls.\<close>

fun is_set_winner :: "call \<Rightarrow> bool" where
  "is_set_winner (Send (SetWinner g w a u)) = True"
| "is_set_winner c = False"

fun is_finalize :: "call \<Rightarrow> bool" where
  "is_finalize (Send (RawInstruction p ks d)) = True"
| "is_finalize c = False"

fun sent :: "call list \<Rightarrow> instruction list" where
  "sent [] = []"
| "sent (Send i # cs) = i # sent cs"
| "sent (Fetch a # cs) = sent cs"

text \<open>What \<open>referrer_lookup\<close> settles on, as a function of what fetching the winner's profile
  returned.\<close>

definition referrer_choice ::
  "web3 \<Rightarrow> pubkey \<Rightarrow> pubkey \<Rightarrow> error + buffer option \<Rightarrow> pubkey \<times> pubkey" where
  "referrer_choice lib PLATFORM_WALLET player1ProfilePDA fetched =
     (case fetched of
        Inl e \<Rightarrow> (PLATFORM_WALLET, player1ProfilePDA)
      | Inr None \<Rightarrow> (PLATFORM_WALLET, player1ProfilePDA)
      | Inr (Some profileData) \<Rightarrow>
          if byte_at profileData 44 = Some 1 then
            (case newPublicKeyBytes lib (slice profileData 45 (45 + 32)) of
               Inl e \<Rightarrow> (PLATFORM_WALLET, player1ProfilePDA)
             | Inr referrerWallet \<Rightarrow>
                 (case findUserProfilePDA_service lib referrerWallet of
                    Inl e \<Rightarrow> (referrerWallet, player1ProfilePDA)
                  | Inr referrerProfilePDA \<Rightarrow> (referrerWallet, referrerProfilePDA)))
          else (PLATFORM_WALLET, player1ProfilePDA))"

section \<open>Client finalization (\<open>finalizeGame\<close> in \<open>use-anchor-program.ts\<close>)\<close>

text \<open>The fields of the decoded game account that \<open>finalizeGame\<close> reads;
  \<open>ga_finished\<close> is \<open>gameStatus.finished\<close>.\<close>

record GameAccount =
  ga_finished :: bool
  ga_winner :: "pubkey option"
  ga_player1 :: pubkey
  ga_player2 :: "pubkey option"
  ga_stakeAmount :: nat

text \<open>\<open>setBigUint64(0, BigInt(nonce), true)\<close>: eight bytes, little endian.\<close>

definition u64le :: "nat \<Rightarrow> buffer" where
  "u64le n = map (\<lambda>k. of_nat (n div 256 ^ k)) [0..<8]"

text \<open>
  The block guarded by \<open>gameNotFinishedOnChain\<close>. \<open>digest\<close> is \<open>crypto.subtle.digest\<close> with
  SHA-256 and \<open>decode\<close> the Anchor account coder, both outside the repository; \<open>nonce\<close> is
  the random number drawn. The result is \<open>Some b\<close> when the block executes \<open>return b\<close>, and
  \<open>None\<close> when control goes on to the normal finalization. The synthetic move is rock, and
  the signer of every instruction is \<open>publicKey\<close>, the connected wallet.
\<close>

definition recover_offchain_game ::
  "web3 \<Rightarrow> (buffer \<Rightarrow> error + buffer) \<Rightarrow> (buffer \<Rightarrow> error + GameAccount) \<Rightarrow> 'l rpc
     \<Rightarrow> pubkey \<Rightarrow> nat \<Rightarrow> jsstring \<Rightarrow> pubkey \<Rightarrow> GameAccount \<Rightarrow> (bool option, 'l) io" where
  "recover_offchain_game lib digest decode r publicKey nonce gid gamePDA gameAccount =
     try_catch
       (bnd (lift (digest (0 # u64le nonce))) (\<lambda>moveCommitment.
        bnd (send_wallet r (SubmitMove gid moveCommitment gamePDA publicKey)) (\<lambda>submitSig.
        bnd (confirm r submitSig) (\<lambda>_.
        bnd (send_wallet r (RevealMoves gid ''rock'' nonce gamePDA publicKey)) (\<lambda>revealSig.
        bnd (confirm r revealSig) (\<lambda>_.
        try_catch
          (bnd (fetch r gamePDA) (\<lambda>updatedGameAccount.
             case updatedGameAccount of
               None \<Rightarrow> ret None
             | Some updated \<Rightarrow>
                 bnd (lift (decode updated)) (\<lambda>updatedGameData.
                   if ga_finished updatedGameData \<and> ga_winner updatedGameData \<noteq> None
                   then ret None
                   else throw (Error ''Game not finished, trying abandon pathway''))))
          (\<lambda>stateCheckError.
             try_catch
               (bnd (send_wallet r (AbandonGame gid gamePDA publicKey)) (\<lambda>abandonSig.
                bnd (confirm r abandonSig) (\<lambda>_.
                bnd (lift (findUserProfilePDA_hook lib (ga_player1 gameAccount))) (\<lambda>player1Profile.
                bnd (ret (case ga_player2 gameAccount of
                            Some p2 \<Rightarrow> p2 | None \<Rightarrow> ga_player1 gameAccount)) (\<lambda>player2_or_1.
                bnd (lift (findUserProfilePDA_hook lib player2_or_1)) (\<lambda>player2Profile.
                bnd (send_wallet r
                       (FinalizeAbandonedGame gid gamePDA player1Profile player2Profile
                          (ga_player1 gameAccount) player2_or_1)) (\<lambda>finalizeAbandonSig.
                bnd (confirm r finalizeAbandonSig) (\<lambda>_.
                ret (Some True)))))))))
               (\<lambda>abandonError. ret None))))))))
       (\<lambda>completionError. ret None)"

text \<open>
  \<open>finalizeGame\<close>. \<open>publicKey\<close>, \<open>connected\<close> (here \<open>walletConnected\<close>) and \<open>sendTransaction\<close> come from the
  wallet hook.
  The function returns a boolean or rethrows; its \<open>catch\<close> blocks report through \<open>onError\<close>
  and rethrow, which leaves the result as it is.
\<close>

definition finalizeGame ::
  "web3 \<Rightarrow> (buffer \<Rightarrow> error + buffer) \<Rightarrow> (buffer \<Rightarrow> error + GameAccount) \<Rightarrow> 'l rpc
     \<Rightarrow> pubkey option \<Rightarrow> bool \<Rightarrow> bool \<Rightarrow> nat \<Rightarrow> jsstring \<Rightarrow> (bool, 'l) io" where
  "finalizeGame lib digest decode r publicKey walletConnected hasSendTransaction nonce gid =
     (case publicKey of
        None \<Rightarrow> ret False
      | Some pk \<Rightarrow>
          if gid = [] \<or> \<not> (walletConnected \<and> hasSendTransaction) then ret False
          else
            bnd (lift (findGamePDA_hook lib gid)) (\<lambda>gamePDA.
            bnd (fetch r gamePDA) (\<lambda>gameAccountInfo.
            case gameAccountInfo of
              None \<Rightarrow> ret False
            | Some accountData \<Rightarrow>
                (case decode accountData of
                   Inl decodeError \<Rightarrow> ret False
                 | Inr gameAccount \<Rightarrow>
                     if ga_finished gameAccount then ret True
                     else
                       bnd (if \<not> ga_finished gameAccount \<and> ga_winner gameAccount = None
                            then recover_offchain_game lib digest decode r pk nonce gid gamePDA
                                   gameAccount
                            else ret None) (\<lambda>returned.
                       case returned of
                         Some b \<Rightarrow> ret b
                       | None \<Rightarrow>
                           bnd (lift (findUserProfilePDA_hook lib (ga_player1 gameAccount)))
                             (\<lambda>player1ProfilePDA.
                           case ga_player2 gameAccount of
                             None \<Rightarrow> throw TypeError
                           | Some p2 \<Rightarrow>
                               bnd (lift (findUserProfilePDA_hook lib p2)) (\<lambda>player2ProfilePDA.
                               bnd (send_wallet r
                                      (FinalizeGame gid gamePDA player1ProfilePDA
                                         player2ProfilePDA (ga_player1 gameAccount) p2))
                                 (\<lambda>signature.
                               bnd (confirm r signature) (\<lambda>confirmation_err.
                               if confirmation_err then throw (Error ''Transaction failed'')
                               else ret True)))))))))"

section \<open>A sample ledger\<close>

text \<open>
  Stand-ins for the parameters, to run the code on: keys are the first 32 characters of
  their text, a derived address is the first 32 bytes of its seeds, derivation rejects a
  seed of more than 32 bytes as the ledger library does, the account coder returns a fixed
  game in progress between A and B, and the digest is constant.
\<close>

definition text_bytes :: "string \<Rightarrow> buffer" where
  "text_bytes s = map (\<lambda>c. of_nat (of_char c)) s"

definition sample_lib :: web3 where
  "sample_lib =
     \<lparr>newPublicKey = (\<lambda>s. Inr (take 32 (text_bytes s))),
      newPublicKeyBytes = (\<lambda>b. if length b \<le> 32 then Inr b else Inl (Error ''Invalid public key input'')),
      findProgramAddressSync =
        (\<lambda>seeds programId.
           if list_ex (\<lambda>s. 32 < length s) seeds then Inl (Error ''Max seed length exceeded'')
           else Inr (take 32 (concat seeds)))\<rparr>"

definition key_A :: pubkey where
  "key_A = take 32 (text_bytes wallet_A)"

definition key_B :: pubkey where
  "key_B = take 32 (text_bytes wallet_B)"

definition service_key :: pubkey where
  "service_key = take 32 (text_bytes ''5ServiceWa11etServiceWa11etServiceWa11et1111'')"

definition platform_key :: pubkey where
  "platform_key = take 32 (text_bytes ''6P1atformWa11etP1atformWa11etP1atformWa11et1'')"

definition sample_gameId :: jsstring where
  "sample_gameId = js ''731044''"

definition sample_gamePDA :: pubkey where
  "sample_gamePDA = text_bytes ''game731044''"

text \<open>The game account's data in the layout the service parses.\<close>

definition sample_gameData :: buffer where
  "sample_gameData =
     replicate 8 0 @ [6, 0, 0, 0] @ text_bytes ''731044'' @ key_A @ [1] @ key_B @ replicate 40 0"

definition sample_decode :: "buffer \<Rightarrow> error + GameAccount" where
  "sample_decode b =
     Inr \<lparr>ga_finished = False, ga_winner = None, ga_player1 = key_A, ga_player2 = Some key_B,
          ga_stakeAmount = 30000000\<rparr>"

definition sample_digest :: "buffer \<Rightarrow> error + buffer" where
  "sample_digest b = Inr (replicate 32 0)"

definition sample_accounts :: "pubkey \<Rightarrow> error + buffer option" where
  "sample_accounts a = (if a = sample_gamePDA then Inr (Some sample_gameData) else Inr None)"

text \<open>A ledger that accepts every transaction; its state counts them.\<close>

definition accepting_rpc :: "nat rpc" where
  "accepting_rpc =
     \<lparr>getAccountInfo = (\<lambda>l. sample_accounts),
      sendAndConfirm = (\<lambda>l i. (Inr (), Suc l)),
      sendTransaction = (\<lambda>l i. (Inr l, Suc l)),
      confirmTransaction = (\<lambda>l sig. Inr False)\<rparr>"



text \<open>The profile address the sample library derives for a key, and the calls one run of
  the service makes for the sample match, which B won against A with a stake of 0.03.\<close>

definition sample_profile :: "pubkey \<Rightarrow> pubkey" where
  "sample_profile k = take 32 (text_bytes ''user_profile'' @ k)"

definition sample_set_winner :: instruction where
  "sample_set_winner = SetWinner sample_gameId key_B sample_gamePDA service_key"

definition sample_finalize :: instruction where
  "sample_finalize =
     finalizeInstruction sample_lib sample_gamePDA (sample_profile key_A) (sample_profile key_B)
       key_A key_B platform_key platform_key (sample_profile key_A)
       (FINALIZE_GAME_DISCRIMINATOR @ [6, 0, 0, 0] @ text_bytes ''731044'')"

definition sample_service_calls :: "call list" where
  "sample_service_calls =
     [Fetch sample_gamePDA, Send sample_set_winner, Fetch sample_gamePDA,
      Fetch (sample_profile key_B), Send sample_finalize]"

definition sample_autoFinalize :: "nat rpc \<Rightarrow> nat \<times> call list \<Rightarrow> bool \<times> nat \<times> call list" where
  "sample_autoFinalize r =
     autoFinalizeSolGame sample_lib r (Some service_key) platform_key sample_gameId
       wallet_B wallet_A 0.03"

section \<open>Derived account addresses: properties\<close>

lemma utf8_ascii_length:
  "\<forall>c \<in> set s. c < 0x80 \<Longrightarrow> length (utf8 s) = length s"
  by (induction s rule: utf8.induct) (auto simp: utf8_1_def)

lemma truncatedGameId_length: "length (truncatedGameId gid) \<le> 32"
  by (simp add: truncatedGameId_def substring0_def)

lemma truncatedGameId_subset: "set (truncatedGameId gid) \<subseteq> set gid"
  by (auto simp: truncatedGameId_def substring0_def replace_dashes_def dest: in_set_takeD)

lemma findGamePDA_hook_seed:
  "findGamePDA_hook lib gid =
     (case PROGRAM_ID_hook lib of
        Inl e \<Rightarrow> Inl e
      | Inr pid \<Rightarrow> findProgramAddressSync lib [utf8 (js ''game''), game_seed gid] pid)"
  by (simp add: findGamePDA_hook_def game_seed_def truncatedGameId_def split: sum.splits)

lemma findGamePDA_service_seed:
  "findGamePDA_service lib gid =
     (case PROGRAM_ID_service lib of
        Inl e \<Rightarrow> Inl e
      | Inr pid \<Rightarrow> findProgramAddressSync lib [utf8 (js ''game''), game_seed gid] pid)"
  by (simp add: findGamePDA_service_def game_seed_def truncatedGameId_def split: sum.splits)

text \<open>For an id of ASCII characters only, the seed has at most 32 bytes.\<close>

lemma game_seed_ascii_le_32:
  assumes "\<forall>c \<in> set gid. c < 0x80"
  shows "length (game_seed gid) \<le> 32"
proof -
  from assms truncatedGameId_subset [of gid]
  have "\<forall>c \<in> set (truncatedGameId gid). c < 0x80"
    by blast
  then have "length (game_seed gid) = length (truncatedGameId gid)"
    unfolding game_seed_def by (rule utf8_ascii_length)
  with truncatedGameId_length [of gid] show ?thesis
    by simp
qed

text \<open>
  Claim C9. The seed derived from a session id (dashes removed, cut to 32 characters,
  encoded as UTF-8) is claimed to have at most 32 bytes for every id. The cut counts UTF-16
  code units, not bytes: for the id of 32 characters \<open>U+00E9\<close>, each of which is two bytes
  in UTF-8, the seed both \<open>findGamePDA\<close> implementations pass on has 64 bytes, and a
  derivation that rejects seeds of more than 32 bytes, as the ledger library's does, throws.
\<close>

theorem game_seed_exceeds_32_bytes:
  "length (replicate 32 (0xE9 :: 16 word)) = 32
   \<and> length (game_seed (replicate 32 0xE9)) = 64
   \<and> findGamePDA_hook sample_lib (replicate 32 0xE9) = Inl (Error ''Max seed length exceeded'')
   \<and> findGamePDA_service sample_lib (replicate 32 0xE9)
       = Inl (Error ''Max seed length exceeded'')"
  by code_simp

text \<open>
  Claim C10. The client hook's \<open>findGamePDA\<close> and the Auto-Finalization Service's
  \<open>findGamePDA\<close> return the same result, an address or the same thrown error, for every
  game id, whatever the derivation function of the ledger library computes.
\<close>

theorem findGamePDA_hook_eq_service:
  "findGamePDA_hook lib gid = findGamePDA_service lib gid"
  by (simp add: findGamePDA_hook_def findGamePDA_service_def
        PROGRAM_ID_hook_def PROGRAM_ID_service_def)

section \<open>The sample session\<close>

lemma playing_A_status: "gameStatus playing_A = Playing"
  by (simp add: playing_A_def handleGameJoined_def points_match_def gameStateData_def
        data_B_def myPlayerId_def wallet_A_def)

lemma playing_A_ready_invariant: "ready_invariant playing_A"
  by (simp add: ready_invariant_def ready_derived_def playing_A_def handleGameJoined_def
        points_match_def gameStateData_def data_A_def data_B_def rejoined_player1_def
        rejoined_player2_def Let_def)


section \<open>Stake reports and the status \<open>playing\<close>\<close>






section \<open>Forfeits\<close>

text \<open>
  Claim C5, as the code has it. When a player leaves a session in \<open>playing\<close>, the remaining
  client moves to \<open>game-over\<close> with itself as winner (the first eight characters of its
  wallet address; \<open>null\<close> with no wallet connected), the notification carries the reason
  \<open>opponent_quit\<close>, no move is needed, both players' records are unchanged, and of the other
  session fields only \<open>roundResult\<close> changes: it is set to the forfeit message.
\<close>

theorem handlePlayerLeft_forfeit:
  assumes "gameStatus s = Playing"
  shows "(case handlePlayerLeft pk gid s of (s', n, g) \<Rightarrow>
            gameStatus s' = GameOver
          \<and> winner s' = js_or truthy_str (myPlayerId pk) None
          \<and> roundResult s' = Some ''You won! Your opponent left the game.''
          \<and> player1 s' = player1 s \<and> player2 s' = player2 s
          \<and> s'\<lparr>gameStatus := gameStatus s, winner := winner s,
                 roundResult := roundResult s\<rparr> = s
          \<and> map_option gf_winner_reason n = Some ''opponent_quit''
          \<and> map_option gf_winner_playerId n = Some (myPlayerId pk)
          \<and> g = None)"
  using assms by (simp add: handlePlayerLeft_def)

theorem handlePlayerLeft_forfeit_witness:
  "gameStatus playing_A = Playing \<and>
   (case handlePlayerLeft (Some wallet_A) (Some ''482915'') playing_A of (s', n, g) \<Rightarrow>
      gameStatus s' = GameOver \<and> winner s' = Some ''7xKXtg2C''
      \<and> player1 s' = player1 playing_A \<and> player2 s' = player2 playing_A
      \<and> map_option gf_winner_reason n = Some ''opponent_quit'')"
  using handlePlayerLeft_forfeit [OF playing_A_status, of "Some wallet_A" "Some ''482915''"]
    playing_A_status
  by (simp add: myPlayerId_def wallet_A_def js_or_def truthy_str_def split: prod.splits)

text \<open>The frame of the claim as stated fails: the handler also replaces \<open>roundResult\<close>.\<close>

theorem handlePlayerLeft_alters_roundResult:
  "gameStatus playing_A = Playing \<and>
   roundResult (fst (handlePlayerLeft (Some wallet_A) (Some ''482915'') playing_A))
     \<noteq> roundResult playing_A"
  by (simp add: playing_A_status handlePlayerLeft_def)
     (simp add: playing_A_def handleGameJoined_def Let_def)

text \<open>
  Claim C6, as the code has it. In \<open>playing\<close>, when the disconnected player is not the
  local one, \<open>player_disconnected\<close> yields the state \<open>player_left\<close> yields except for the
  message in \<open>roundResult\<close>, and the notification \<open>player_left\<close> yields except for the reason
  (\<open>opponent_disconnect\<close> instead of \<open>opponent_quit\<close>), the quit reason and the attached
  game state.
\<close>

theorem disconnect_like_leave_up_to_reason:
  assumes "gameStatus s = Playing" and "dc_disconnectedPlayerId d \<noteq> myPlayerId pk"
  shows "fst (handlePlayerDisconnected pk d s) =
           (fst (handlePlayerLeft pk (dc_gameId d) s))
             \<lparr>roundResult := Some ''You won! Your opponent disconnected.''\<rparr>
       \<and> fst (snd (handlePlayerDisconnected pk d s)) =
           map_option (\<lambda>n. n\<lparr>gf_winner_reason := ''opponent_disconnect'',
                              gf_gameState := dc_gameState d,
                              gf_quitReason := ''opponent_disconnected''\<rparr>)
             (fst (snd (handlePlayerLeft pk (dc_gameId d) s)))
       \<and> map_option gf_winner_reason (fst (snd (handlePlayerLeft pk (dc_gameId d) s)))
           = Some ''opponent_quit''
       \<and> snd (snd (handlePlayerDisconnected pk d s))
           = snd (snd (handlePlayerLeft pk (dc_gameId d) s))"
  using assms by (simp add: handlePlayerDisconnected_def handlePlayerLeft_def)

theorem disconnect_like_leave_up_to_reason_witness:
  "gameStatus playing_A = Playing
   \<and> dc_disconnectedPlayerId B_disconnected \<noteq> myPlayerId (Some wallet_A)
   \<and> fst (handlePlayerDisconnected (Some wallet_A) B_disconnected playing_A) =
       (fst (handlePlayerLeft (Some wallet_A) (Some ''482915'') playing_A))
         \<lparr>roundResult := Some ''You won! Your opponent disconnected.''\<rparr>"
proof -
  have a: "gameStatus playing_A = Playing"
    by (rule playing_A_status)
  have b: "dc_disconnectedPlayerId B_disconnected \<noteq> myPlayerId (Some wallet_A)"
    by (simp add: B_disconnected_def myPlayerId_def wallet_A_def)
  from disconnect_like_leave_up_to_reason [OF a b] a b show ?thesis
    by (simp add: B_disconnected_def)
qed

text \<open>The two handlers are not observationally identical: on the same playing state the
  results differ, and the disconnect notification carries \<open>opponent_disconnect\<close>.\<close>

theorem disconnect_differs_from_leave:
  "gameStatus playing_A = Playing
   \<and> dc_disconnectedPlayerId B_disconnected \<noteq> myPlayerId (Some wallet_A)
   \<and> handlePlayerDisconnected (Some wallet_A) B_disconnected playing_A
       \<noteq> handlePlayerLeft (Some wallet_A) (dc_gameId B_disconnected) playing_A
   \<and> map_option gf_winner_reason
       (fst (snd (handlePlayerDisconnected (Some wallet_A) B_disconnected playing_A)))
       = Some ''opponent_disconnect''"
  by (simp add: playing_A_status handlePlayerDisconnected_def handlePlayerLeft_def
        B_disconnected_def myPlayerId_def wallet_A_def)

section \<open>The ready flag\<close>

lemma ready_invariant_handleMoveSubmitted:
  "ready_invariant s \<Longrightarrow> ready_invariant (handleMoveSubmitted d s)"
  by (auto simp: ready_invariant_def ready_derived_def handleMoveSubmitted_def Let_def
        split: option.splits)

lemma ready_invariant_handleNextRound: "ready_invariant (handleNextRound n s)"
  by (auto simp: ready_invariant_def ready_derived_def handleNextRound_def split: option.splits)

text \<open>
  Claim C8, as the code has it. \<open>move_submitted\<close> preserves "a player with a move is
  ready" for both players and \<open>next_round\<close> establishes it; \<open>round_completed\<close> sets each
  player's ready flag to false and keeps each player's move (the payload's, or else the
  one held) for the round result display; \<open>game_joined\<close> takes each player's move and ready
  flag from the payload.
\<close>

theorem ready_flag_by_handler:
  "(ready_invariant s \<longrightarrow> ready_invariant (handleMoveSubmitted d s))
   \<and> ready_invariant (handleNextRound n s)
   \<and> \<not> ready (player1 (handleRoundCompleted pk rc s))
   \<and> currentMove (player1 (handleRoundCompleted pk rc s)) =
        nullish (Option.bind (rc_player1 rc) pd_currentMove) (currentMove (player1 s))
   \<and> map_option ready (player2 (handleRoundCompleted pk rc s))
        = map_option (\<lambda>p2. False) (player2 s)
   \<and> map_option currentMove (player2 (handleRoundCompleted pk rc s))
        = map_option (\<lambda>p2. nullish (Option.bind (rc_player2 rc) pd_currentMove) (currentMove p2))
            (player2 s)
   \<and> currentMove (player1 (handleGameJoined pk j))
        = Option.bind (jg_player1 (gameStateData j)) pd_currentMove
   \<and> ready (player1 (handleGameJoined pk j))
        = (Option.bind (jg_player1 (gameStateData j)) pd_ready = Some True)
   \<and> map_option currentMove (player2 (handleGameJoined pk j))
        = map_option pd_currentMove (jg_player2 (gameStateData j))
   \<and> map_option ready (player2 (handleGameJoined pk j))
        = map_option (\<lambda>q. pd_ready q = Some True) (jg_player2 (gameStateData j))"
proof -
  have joined1: "ready (rejoined_player1 p) = (Option.bind p pd_ready = Some True)" for p
    by (cases "Option.bind p pd_ready") (simp_all add: rejoined_player1_def)
  have joined2: "ready (rejoined_player2 q) = (pd_ready q = Some True)" for q
    by (cases "pd_ready q") (simp_all add: rejoined_player2_def)
  have completed2:
    "map_option ready (player2 (handleRoundCompleted pk rc s))
       = map_option (\<lambda>p2. False) (player2 s)"
    "map_option currentMove (player2 (handleRoundCompleted pk rc s))
       = map_option (\<lambda>p2. nullish (Option.bind (rc_player2 rc) pd_currentMove) (currentMove p2))
           (player2 s)"
    by (simp_all add: handleRoundCompleted_def option.map_comp comp_def)
  have rejoined2_move:
    "map_option currentMove (player2 (handleGameJoined pk j))
       = map_option pd_currentMove (jg_player2 (gameStateData j))"
    by (simp add: handleGameJoined_def Let_def option.map_comp comp_def rejoined_player2_def)
  have rejoined2_ready:
    "map_option ready (player2 (handleGameJoined pk j))
       = map_option (\<lambda>q. pd_ready q = Some True) (jg_player2 (gameStateData j))"
    by (simp add: handleGameJoined_def Let_def option.map_comp comp_def joined2)
  have rejoined1:
    "currentMove (player1 (handleGameJoined pk j))
       = Option.bind (jg_player1 (gameStateData j)) pd_currentMove"
    "ready (player1 (handleGameJoined pk j))
       = (Option.bind (jg_player1 (gameStateData j)) pd_ready = Some True)"
    by (simp_all add: handleGameJoined_def Let_def joined1) (simp add: rejoined_player1_def)
  show ?thesis
    using completed2 rejoined2_move rejoined2_ready rejoined1
    by (simp add: ready_invariant_handleMoveSubmitted ready_invariant_handleNextRound)
       (simp add: handleRoundCompleted_def)
qed

theorem ready_flag_by_handler_witness:
  "ready_invariant playing_A \<and> ready_invariant (handleMoveSubmitted rock_by_A playing_A)
   \<and> ready_invariant (handleNextRound 3 playing_A)"
  using ready_flag_by_handler [where s = playing_A and d = rock_by_A and n = 3]
    playing_A_ready_invariant
  by simp

text \<open>The invariant does not survive \<open>round_completed\<close>: after player A's move and the
  round's completion, player A holds the move \<open>rock\<close> and is not ready.\<close>

theorem round_completed_breaks_ready_invariant:
  "ready_invariant (handleMoveSubmitted rock_by_A playing_A)
   \<and> \<not> ready_invariant
        (handleRoundCompleted (Some wallet_A) round_won_by_A
           (handleMoveSubmitted rock_by_A playing_A))"
  by (simp add: ready_invariant_def ready_derived_def handleRoundCompleted_def
        handleMoveSubmitted_def playing_A_def handleGameJoined_def points_match_def
        gameStateData_def rock_by_A_def round_won_by_A_def data_A_def data_B_def
        rejoined_player1_def rejoined_player2_def nullish_def Let_def js_or_def truthy_str_def)

section \<open>The sample ledger\<close>

lemmas io_defs = bnd_def ret_def throw_def lift_def try_catch_def fetch_def send_rpc_def
  send_wallet_def confirm_def

lemma sample_key_lengths:
  "length key_A = 32" "length key_B = 32" "length service_key = 32" "length platform_key = 32"
  by (simp_all add: key_A_def key_B_def service_key_def platform_key_def text_bytes_def
        wallet_A_def wallet_B_def)

lemma key_A_neq_key_B: "key_A \<noteq> key_B"
  by (simp add: key_A_def key_B_def text_bytes_def wallet_A_def wallet_B_def)

lemma sample_gameId_nonempty: "sample_gameId \<noteq> []"
  by (simp add: sample_gameId_def js_def)

lemma utf8_sample_gameId: "utf8 sample_gameId = text_bytes ''731044''"
  by code_simp

lemma utf8_user_profile: "utf8 (js ''user_profile'') = text_bytes ''user_profile''"
  by code_simp

lemma writeUInt32LE_sample: "writeUInt32LE (length (text_bytes ''731044'')) = Inr [6, 0, 0, 0]"
  by (simp add: writeUInt32LE_def text_bytes_def)

lemma readUInt32LE_sample: "readUInt32LE sample_gameData 8 = Inr 6"
  by (simp add: readUInt32LE_def sample_gameData_def nth_append text_bytes_def)

lemma slice_sample_player1: "slice sample_gameData 18 50 = key_A"
  by (simp add: slice_def sample_gameData_def text_bytes_def sample_key_lengths)

lemma byte_at_sample_tag: "byte_at sample_gameData 50 = Some 1"
  by (simp add: byte_at_def sample_gameData_def text_bytes_def nth_append sample_key_lengths)

lemma slice_sample_player2: "slice sample_gameData 51 83 = key_B"
  by (simp add: slice_def sample_gameData_def text_bytes_def sample_key_lengths)

lemma parse_players_sample: "parse_players sample_lib sample_gameData = Inr (key_A, key_B)"
  by (simp add: parse_players_def readUInt32LE_sample slice_sample_player1 byte_at_sample_tag
        slice_sample_player2 sample_lib_def Let_def sample_key_lengths)

lemma findGamePDA_service_sample: "findGamePDA_service sample_lib sample_gameId = Inr sample_gamePDA"
  by code_simp

lemma findGamePDA_hook_sample: "findGamePDA_hook sample_lib sample_gameId = Inr sample_gamePDA"
  by code_simp

lemma findUserProfilePDA_service_sample:
  "length k = 32 \<Longrightarrow> findUserProfilePDA_service sample_lib k = Inr (sample_profile k)"
  by (simp add: findUserProfilePDA_service_def PROGRAM_ID_service_def sample_lib_def
        utf8_user_profile sample_profile_def text_bytes_def)

lemma findUserProfilePDA_hook_sample:
  "length k = 32 \<Longrightarrow> findUserProfilePDA_hook sample_lib k = Inr (sample_profile k)"
  by (simp add: findUserProfilePDA_hook_def PROGRAM_ID_hook_def sample_lib_def
        utf8_user_profile sample_profile_def text_bytes_def)

lemma newPublicKey_sample: "newPublicKey sample_lib wallet_B = Inr key_B"
  by (simp add: sample_lib_def key_B_def)

lemma sample_accounts_profile: "sample_accounts (sample_profile k) = Inr None"
  by (simp add: sample_accounts_def sample_profile_def sample_gamePDA_def text_bytes_def)

lemma sample_accounts_game: "sample_accounts sample_gamePDA = Inr (Some sample_gameData)"
  by (simp add: sample_accounts_def)

text \<open>One run of the service for the sample match, on any ledger that serves the sample
  accounts: what happens depends on the two submissions only.\<close>

lemma sample_autoFinalize_run:
  assumes "getAccountInfo r = (\<lambda>l. sample_accounts)"
  shows "sample_autoFinalize r (l, h) =
     (case sendAndConfirm r l sample_set_winner of
        (Inl e, l1) \<Rightarrow> (False, l1, h @ [Fetch sample_gamePDA, Send sample_set_winner])
      | (Inr u, l1) \<Rightarrow>
          (case sendAndConfirm r l1 sample_finalize of
             (Inl e, l2) \<Rightarrow> (False, l2, h @ sample_service_calls)
           | (Inr u, l2) \<Rightarrow> (True, l2, h @ sample_service_calls)))"
  unfolding sample_autoFinalize_def autoFinalizeSolGame_def autoFinalizeSolGame_try_def
  by (simp add: io_defs assms findGamePDA_service_sample sample_accounts_game
        parse_players_sample findUserProfilePDA_service_sample sample_key_lengths
        newPublicKey_sample writeUInt32LE_sample utf8_sample_gameId sample_accounts_profile
        referrer_lookup_def sample_service_calls_def sample_set_winner_def sample_finalize_def
        split: prod.splits sum.splits)

lemma sample_autoFinalize_accepting:
  "sample_autoFinalize accepting_rpc (l, h) = (True, Suc (Suc l), h @ sample_service_calls)"
  by (simp add: sample_autoFinalize_run accepting_rpc_def)



lemma sample_service_calls_sent: "sent sample_service_calls = [sample_set_winner, sample_finalize]"
  by (simp add: sample_service_calls_def)

lemma sample_service_calls_finalize:
  "filter is_finalize sample_service_calls = [Send sample_finalize]"
  "filter is_finalize (butlast sample_service_calls) = []"
  "filter is_set_winner sample_service_calls = [Send sample_set_winner]"
  "last sample_service_calls = Send sample_finalize"
  by (simp_all add: sample_service_calls_def sample_finalize_def finalizeInstruction_def
        sample_set_winner_def)

section \<open>Auto-Finalization Service: properties\<close>

lemma referrer_lookup_eq:
  "referrer_lookup lib r pw p1 wp (l, h) =
     (Inr (referrer_choice lib pw p1 (getAccountInfo r l wp)), l, h @ [Fetch wp])"
  by (simp add: referrer_lookup_def referrer_choice_def io_defs
        split: sum.splits option.splits prod.splits)

text \<open>
  Claim C1, as the code has it. The service keeps no finalization record and checks for
  none: whatever calls were made before (an earlier, settled finalization of the same
  session among them), an invocation returns \<open>true\<close> only after it has itself fetched the
  game account, had one \<open>set_winner\<close> transaction naming the winner it was given accepted,
  and then had one \<open>finalize_game\<close> transaction accepted: the instruction of the program id
  with the discriminator and the game id as data, on the game address, the two players and
  their profiles read from the game account, the platform wallet and the referrer. These
  five ledger calls are all it makes. A re-trigger is never a no-op that returns an
  existing record; whether a repeated finalize pays again is left to the on-chain program.
\<close>

theorem success_only_after_both_transactions:
  "fst (autoFinalizeSolGame lib r sw pw gid wpk lpk stake (l, h)) \<longrightarrow>
     (case autoFinalizeSolGame lib r sw pw gid wpk lpk stake (l, h) of (ok, l', h') \<Rightarrow>
        \<exists>serviceKey gamePDA gameData player1Key player2Key player1ProfilePDA player2ProfilePDA
           winnerKey l1 gameAccountAfter gameIdLengthBuffer winnerProfilePDA referrerWallet
           referrerProfilePDA.
           sw = Some serviceKey
         \<and> findGamePDA_service lib gid = Inr gamePDA
         \<and> getAccountInfo r l gamePDA = Inr (Some gameData)
         \<and> parse_players lib gameData = Inr (player1Key, player2Key)
         \<and> findUserProfilePDA_service lib player1Key = Inr player1ProfilePDA
         \<and> findUserProfilePDA_service lib player2Key = Inr player2ProfilePDA
         \<and> newPublicKey lib wpk = Inr winnerKey
         \<and> sendAndConfirm r l (SetWinner gid winnerKey gamePDA serviceKey) = (Inr (), l1)
         \<and> getAccountInfo r l1 gamePDA = Inr gameAccountAfter
         \<and> writeUInt32LE (length (utf8 gid)) = Inr gameIdLengthBuffer
         \<and> findUserProfilePDA_service lib winnerKey = Inr winnerProfilePDA
         \<and> fst (referrer_lookup lib r pw player1ProfilePDA winnerProfilePDA (l1, []))
             = Inr (referrerWallet, referrerProfilePDA)
         \<and> sendAndConfirm r l1
               (finalizeInstruction lib gamePDA player1ProfilePDA player2ProfilePDA player1Key
                  player2Key pw referrerWallet referrerProfilePDA
                  (FINALIZE_GAME_DISCRIMINATOR @ gameIdLengthBuffer @ utf8 gid)) = (Inr (), l')
         \<and> h' = h @ [Fetch gamePDA,
                      Send (SetWinner gid winnerKey gamePDA serviceKey),
                      Fetch gamePDA,
                      Fetch winnerProfilePDA,
                      Send (finalizeInstruction lib gamePDA player1ProfilePDA player2ProfilePDA
                              player1Key player2Key pw referrerWallet referrerProfilePDA
                              (FINALIZE_GAME_DISCRIMINATOR @ gameIdLengthBuffer @ utf8 gid))])"
  unfolding autoFinalizeSolGame_def autoFinalizeSolGame_try_def
  by (auto simp: io_defs referrer_lookup_eq
        split: sum.splits option.splits prod.splits)

theorem success_only_after_both_transactions_witness:
  "fst (sample_autoFinalize accepting_rpc (2, sample_service_calls))
   \<and> snd (snd (sample_autoFinalize accepting_rpc (2, sample_service_calls)))
       = sample_service_calls @ sample_service_calls
   \<and> sent (drop (length sample_service_calls)
             (snd (snd (sample_autoFinalize accepting_rpc (2, sample_service_calls)))))
       = [sample_set_winner, sample_finalize]"
  using success_only_after_both_transactions
          [where lib = sample_lib and r = accepting_rpc and sw = "Some service_key"
             and pw = platform_key and gid = sample_gameId and wpk = wallet_B
             and lpk = wallet_A and stake = "0.03" and l = 2 and h = sample_service_calls]
  by (simp add: sample_autoFinalize_accepting sample_service_calls_sent)

text \<open>Triggered twice for the sample match on a ledger that accepts every transaction,
  the service returns \<open>true\<close> twice and submits \<open>set_winner\<close> and finalize twice.\<close>

theorem retrigger_submits_again:
  "sample_autoFinalize accepting_rpc (0, []) = (True, 2, sample_service_calls)
   \<and> sample_autoFinalize accepting_rpc (2, sample_service_calls)
       = (True, 4, sample_service_calls @ sample_service_calls)
   \<and> filter is_finalize (sample_service_calls @ sample_service_calls)
       = [Send sample_finalize, Send sample_finalize]"
  by (simp add: sample_autoFinalize_accepting sample_service_calls_finalize)




section \<open>Client finalization: the recovery path\<close>

text \<open>
  Claim C2. The recovery is to name the off-chain winner in every instruction. In the
  sample match B won. When A's wallet invokes \<open>finalizeGame\<close> while the on-chain game is
  still in progress, the synthetic rock commitment and reveal and the abandon instruction
  are submitted with A, the invoking wallet, as the user; the game is then finalized as
  abandoned, and the function returns \<open>true\<close>. The winner is not an input of \<open>finalizeGame\<close>.
\<close>

theorem recovery_names_the_invoking_wallet:
  "key_A \<noteq> key_B
   \<and> (case finalizeGame sample_lib sample_digest sample_decode accepting_rpc (Some key_A)
             True True 4711 sample_gameId (0, []) of
        (res, l', calls) \<Rightarrow>
          res = Inr True
        \<and> sent calls =
            [SubmitMove sample_gameId (replicate 32 0) sample_gamePDA key_A,
             RevealMoves sample_gameId ''rock'' 4711 sample_gamePDA key_A,
             AbandonGame sample_gameId sample_gamePDA key_A,
             FinalizeAbandonedGame sample_gameId sample_gamePDA (sample_profile key_A)
               (sample_profile key_B) key_A key_B])"
  unfolding finalizeGame_def recover_offchain_game_def
  by (simp add: io_defs key_A_neq_key_B findGamePDA_hook_sample accepting_rpc_def
        sample_accounts_game sample_decode_def sample_digest_def findUserProfilePDA_hook_sample
        sample_key_lengths sample_gameId_nonempty)

end
